theory Spec2Isabelle
  imports Complex_Main "HOL-Library.AList" "HOL-Library.Signed_Division"
begin

section \<open>The main process of the terminal (src/main.ts)\<close>

text \<open>
  The mutable module state of \<^verbatim>\<open>main.ts\<close> (\<^verbatim>\<open>config\<close>, \<^verbatim>\<open>themes\<close>, \<^verbatim>\<open>ptyCounter\<close>,
  \<^verbatim>\<open>ptyMap\<close>) is a record that every function takes and returns. What the functions do to
  the outside (console output, messages sent to a window, calls on a pty object) is
  appended to a trace of effects kept in the same record, and the closures subscribed
  with \<^verbatim>\<open>term.on\<close> are kept as a list of listeners. Exceptions are values of type \<open>exn\<close>.
  Session ids, window ids, columns and rows are JavaScript numbers that hold natural
  numbers.
\<close>

subsection \<open>Values of the host platform\<close>

datatype exn =
    TypeError
  | SpawnError string
  | FsError string
  | SyntaxError

text \<open>What \<^verbatim>\<open>JSON.parse\<close> returns.\<close>

datatype json =
    JNull
  | JBool bool
  | JNumber real
  | JString string
  | JArray "json list"
  | JObject "(string \<times> json) list"

text \<open>
  A pty object (\<^verbatim>\<open>pty.Terminal\<close>) is known by its identity. A \<^verbatim>\<open>WebContents\<close> carries
  its own identity and the id of the window \<^verbatim>\<open>BrowserWindow.fromWebContents\<close> finds for it.
\<close>

type_synonym Terminal = nat

datatype WebContents = WebContents (wc_id: nat) (wc_windowId: nat)

definition fromWebContents_id :: "WebContents \<Rightarrow> nat" where
  "fromWebContents_id sender = wc_windowId sender"

text \<open>
  An ES6 \<^verbatim>\<open>Map\<close> keeps its entries in insertion order with one entry per key: an
  association list, where \<^verbatim>\<open>set\<close> replaces the value of a present key in place and
  appends an absent one.
\<close>

type_synonym ('k, 'v) js_map = "('k \<times> 'v) list"

definition map_get :: "('k, 'v) js_map \<Rightarrow> 'k \<Rightarrow> 'v option" where
  "map_get m k = map_of m k"

definition map_set :: "('k, 'v) js_map \<Rightarrow> 'k \<Rightarrow> 'v \<Rightarrow> ('k, 'v) js_map" where
  "map_set m k v = AList.update k v m"

definition map_delete :: "('k, 'v) js_map \<Rightarrow> 'k \<Rightarrow> ('k, 'v) js_map" where
  "map_delete m k = AList.delete k m"

definition map_keys :: "('k, 'v) js_map \<Rightarrow> 'k list" where
  "map_keys m = map fst m"

subsection \<open>Configuration and messages\<close>

text \<open>
  Modelled from the spec: the declarations of \<^verbatim>\<open>Config\<close> and of the module
  \<^verbatim>\<open>windowmessages\<close> are not part of the sources at hand. The configuration has the
  fields \<^verbatim>\<open>main.ts\<close> reads and writes. The messages are the variants of the table of
  external interfaces, under the names \<^verbatim>\<open>main.ts\<close> uses for them and for their type tags;
  \<open>OtherMessage\<close> is an object whose type tag is none of these.
\<close>

record Config =
  theme :: string
  blinkingCursor :: bool
  themePath :: "string option"

datatype MessageType =
    CONFIG_REQUEST
  | CONFIG
  | FRAME_DATA_REQUEST
  | THEMES_REQUEST
  | THEMES
  | PTY_CREATE
  | PTY_CREATED
  | PTY_RESIZE
  | PTY_INPUT
  | PTY_CLOSE
  | PTY_OUTPUT
  | OTHER_TYPE nat

datatype Message =
    ConfigRequestMessage
  | ConfigMessage Config
  | FrameDataRequestMessage
  | ThemesRequestMessage
  | ThemesMessage "json list"
  | CreatePtyRequestMessage (msg_command: string) (msg_args: "string list")
      (msg_columns: nat) (msg_rows: nat)
  | CreatedPtyMessage (msg_id: nat)
  | PtyResize (msg_id: nat) (msg_columns: nat) (msg_rows: nat)
  | PtyInput (msg_id: nat) (msg_data: string)
  | PtyClose (msg_id: nat)
  | PtyOutput (msg_id: nat) (msg_data: string)
  | OtherMessage nat

fun msg_type :: "Message \<Rightarrow> MessageType" where
  "msg_type ConfigRequestMessage = CONFIG_REQUEST"
| "msg_type (ConfigMessage c) = CONFIG"
| "msg_type FrameDataRequestMessage = FRAME_DATA_REQUEST"
| "msg_type ThemesRequestMessage = THEMES_REQUEST"
| "msg_type (ThemesMessage ts) = THEMES"
| "msg_type (CreatePtyRequestMessage command args columns rows) = PTY_CREATE"
| "msg_type (CreatedPtyMessage i) = PTY_CREATED"
| "msg_type (PtyResize i columns rows) = PTY_RESIZE"
| "msg_type (PtyInput i d) = PTY_INPUT"
| "msg_type (PtyClose i) = PTY_CLOSE"
| "msg_type (PtyOutput i d) = PTY_OUTPUT"
| "msg_type (OtherMessage t) = OTHER_TYPE t"

subsection \<open>State and effects\<close>

datatype log_arg =
    LStr string
  | LMsg Message
  | LConfig Config

datatype effect =
    Log "log_arg list"
  | Send WebContents Message
  | Spawn string "string list" nat nat
  | TermWrite Terminal string
  | TermResize Terminal nat nat
  | TermDestroy Terminal

record PtyTuple =
  windowId :: nat
  ptyTerm :: Terminal

text \<open>
  The two closures \<^verbatim>\<open>createPty\<close> subscribes on a pty object capture the same three
  variables: the pty object, the session id and the sender.
\<close>

datatype listener = Listener (l_term: Terminal) (l_ptyId: nat) (l_sender: WebContents)

record main_state =
  config :: Config
  themes :: "(string, json) js_map"
  ptyCounter :: nat
  ptyMap :: "(nat, PtyTuple) js_map"
  listeners :: "listener list"
  effects :: "effect list"

definition emit :: "effect \<Rightarrow> main_state \<Rightarrow> main_state" where
  "emit e s = s\<lparr>effects := effects s @ [e]\<rparr>"

definition log :: "log_arg list \<Rightarrow> main_state \<Rightarrow> main_state" where
  "log args s = emit (Log args) s"

definition send :: "WebContents \<Rightarrow> Message \<Rightarrow> main_state \<Rightarrow> main_state" where
  "send sender msg s = emit (Send sender msg) s"

subsection \<open>Logging of pty data\<close>

definition backslash :: char where
  "backslash = CHR 0x5C"

definition hex_digit :: "nat \<Rightarrow> char" where
  "hex_digit d = (if d < 10 then char_of (48 + d) else char_of (87 + d))"

fun toString16 :: "nat \<Rightarrow> string" where
  "toString16 n = (if n < 16 then [hex_digit n] else toString16 (n div 16) @ [hex_digit (n mod 16)])"

fun toString10 :: "nat \<Rightarrow> string" where
  "toString10 n = (if n < 10 then [hex_digit n] else toString10 (n div 10) @ [hex_digit (n mod 10)])"

definition mapBadChar :: "char \<Rightarrow> string" where
  "mapBadChar m =
    (let c = (of_char m :: nat) in
     if c = 8 then [backslash, CHR ''b'']
     else if c = 12 then [backslash, CHR ''f'']
     else if c = 13 then [backslash, CHR ''r'']
     else if c = 11 then [backslash, CHR ''v'']
     else [backslash, CHR ''x''] @ (if c < 16 then ''0'' else []) @ toString16 c)"

text \<open>The characters the regular expression of \<^verbatim>\<open>substituteBadChars\<close> leaves alone.\<close>

definition plain_char :: "char \<Rightarrow> bool" where
  "plain_char m =
    (let c = (of_char m :: nat) in
     c \<in> set [32, 47, 123, 125, 44, 46, 58, 59, 60, 62, 33, 64, 35, 36, 37, 94, 38, 42,
               40, 41, 43, 61, 95, 39, 34, 45]
     \<or> (97 \<le> c \<and> c \<le> 122) \<or> (65 \<le> c \<and> c \<le> 90) \<or> (48 \<le> c \<and> c \<le> 57))"

definition substituteBadChars :: "string \<Rightarrow> string" where
  "substituteBadChars d = concat (map (\<lambda>m. if plain_char m then [m] else mapBadChar m) d)"

definition logData :: "string \<Rightarrow> main_state \<Rightarrow> main_state" where
  "logData d s = log [LStr (substituteBadChars d)] s"

subsection \<open>Sessions\<close>

text \<open>
  \<^verbatim>\<open>pty.spawn\<close> belongs to the platform: what it did for a call (threw, or returned a
  pty object) is the argument \<open>spawned\<close>. A throw leaves \<^verbatim>\<open>createPty\<close> before the counter
  is touched.
\<close>

text \<open>
  \<^verbatim>\<open>ptyCounter++\<close> adds one to an IEEE double. Below \<open>2^53\<close> the sum is exact. From
  \<open>2^53\<close> on the doubles are the even numbers (up to \<open>2^54\<close>) and \<open>n + 1\<close> lies half way
  between two of them: it is rounded to the one with the even mantissa, so \<open>2^53\<close> stays
  \<open>2^53\<close>. From \<open>2^54\<close> on \<open>n + 1\<close> is rounded back to \<open>n\<close>. The counter starts at 0 and
  nothing else assigns to it, so it never leaves the range up to \<open>2^53\<close>.
\<close>

definition js_increment :: "nat \<Rightarrow> nat" where
  "js_increment n =
    (if n < 2 ^ 53 then n + 1
     else if n < 2 ^ 54 \<and> (n div 2) mod 2 = 1 then n + 2
     else n)"

definition createPty ::
  "WebContents \<Rightarrow> string \<Rightarrow> string list \<Rightarrow> nat \<Rightarrow> nat \<Rightarrow> exn + Terminal \<Rightarrow> main_state
    \<Rightarrow> (exn + nat) \<times> main_state" where
  "createPty sender file args cols rows spawned s =
    (let s0 = emit (Spawn file args cols rows) s in
     case spawned of
       Inl e \<Rightarrow> (Inl e, s0)
     | Inr trm \<Rightarrow>
        (let s1 = s0\<lparr>ptyCounter := js_increment (ptyCounter s0)\<rparr>;
             ptyId = ptyCounter s1;
             s2 = s1\<lparr>ptyMap := map_set (ptyMap s1) ptyId
                    \<lparr>windowId = fromWebContents_id sender, ptyTerm = trm\<rparr>\<rparr>;
             s3 = s2\<lparr>listeners := listeners s2 @ [Listener trm ptyId sender]\<rparr>
         in (Inr ptyId, s3)))"

text \<open>The closure subscribed to \<^verbatim>\<open>'data'\<close>.\<close>

definition onData :: "listener \<Rightarrow> string \<Rightarrow> main_state \<Rightarrow> main_state" where
  "onData l d s =
    (let s1 = log [LStr (''pty process got data for ptyID='' @ toString10 (l_ptyId l))] s;
         s2 = logData d s1
     in send (l_sender l) (PtyOutput (l_ptyId l) d) s2)"

text \<open>The closure subscribed to \<^verbatim>\<open>'exit'\<close>.\<close>

definition onExit :: "listener \<Rightarrow> main_state \<Rightarrow> main_state" where
  "onExit l s =
    (let s1 = log [LStr ''pty process exited.''] s;
         s2 = send (l_sender l) (PtyClose (l_ptyId l)) s1;
         s3 = emit (TermDestroy (l_term l)) s2
     in s3\<lparr>ptyMap := map_delete (ptyMap s3) (l_ptyId l)\<rparr>)"

definition handlePtyCreate ::
  "WebContents \<Rightarrow> Message \<Rightarrow> exn + Terminal \<Rightarrow> main_state \<Rightarrow> (exn + Message) \<times> main_state" where
  "handlePtyCreate sender msg spawned s =
    (case createPty sender (msg_command msg) (msg_args msg) (msg_columns msg) (msg_rows msg)
            spawned s of
       (Inl e, s1) \<Rightarrow> (Inl e, s1)
     | (Inr i, s1) \<Rightarrow> (Inr (CreatedPtyMessage i), s1))"

definition advisory :: "log_arg list" where
  "advisory = [LStr ''WARNING: Input arrived for a terminal which doesn't exist.'']"

definition handlePtyInput :: "Message \<Rightarrow> main_state \<Rightarrow> main_state" where
  "handlePtyInput msg s =
    (case map_get (ptyMap s) (msg_id msg) of
       None \<Rightarrow> log advisory s
     | Some ptyTerminalTuple \<Rightarrow> emit (TermWrite (ptyTerm ptyTerminalTuple) (msg_data msg)) s)"

definition handlePtyResize :: "Message \<Rightarrow> main_state \<Rightarrow> main_state" where
  "handlePtyResize msg s =
    (case map_get (ptyMap s) (msg_id msg) of
       None \<Rightarrow> log advisory s
     | Some ptyTerminalTuple \<Rightarrow>
        emit (TermResize (ptyTerm ptyTerminalTuple) (msg_columns msg) (msg_rows msg)) s)"

definition handlePtyClose :: "Message \<Rightarrow> main_state \<Rightarrow> main_state" where
  "handlePtyClose msg s =
    (case map_get (ptyMap s) (msg_id msg) of
       None \<Rightarrow> log advisory s
     | Some ptyTerminalTuple \<Rightarrow>
        (let s1 = emit (TermDestroy (ptyTerm ptyTerminalTuple)) s
         in s1\<lparr>ptyMap := map_delete (ptyMap s1) (msg_id msg)\<rparr>))"

text \<open>
  \<^verbatim>\<open>cleanUpPtyWindow\<close> first drains the iterator of the keys into an array, then visits
  the array. \<^verbatim>\<open>tup.windowId\<close> on a key that has no entry any more is a TypeError, which
  leaves \<^verbatim>\<open>forEach\<close>.
\<close>

fun drain :: "nat list \<Rightarrow> nat list \<Rightarrow> nat list" where
  "drain [] keys = keys"
| "drain (k # it) keys = drain it (keys @ [k])"

fun cleanUp_forEach :: "nat \<Rightarrow> nat list \<Rightarrow> main_state \<Rightarrow> exn option \<times> main_state" where
  "cleanUp_forEach w [] s = (None, s)"
| "cleanUp_forEach w (k # keys) s =
    (case map_get (ptyMap s) k of
       None \<Rightarrow> (Some TypeError, s)
     | Some tup \<Rightarrow>
        if windowId tup = w then
          (let s1 = emit (TermDestroy (ptyTerm tup)) s
           in cleanUp_forEach w keys (s1\<lparr>ptyMap := map_delete (ptyMap s1) k\<rparr>))
        else cleanUp_forEach w keys s)"

definition cleanUpPtyWindow :: "nat \<Rightarrow> main_state \<Rightarrow> exn option \<times> main_state" where
  "cleanUpPtyWindow w s = cleanUp_forEach w (drain (map_keys (ptyMap s)) []) s"

subsection \<open>Configuration, themes and the dispatcher\<close>

text \<open>
  The file system, \<^verbatim>\<open>path.join\<close>, \<^verbatim>\<open>__dirname\<close> and \<^verbatim>\<open>JSON.parse\<close> belong to the
  platform; the functions that use them take them as a record.
\<close>

record platform =
  dirname :: string
  path_join :: "string list \<Rightarrow> string"
  existsSync :: "string \<Rightarrow> bool"
  readdirSync :: "string \<Rightarrow> exn + string list"
  readFileSync :: "string \<Rightarrow> exn + string"
  JSON_parse :: "string \<Rightarrow> exn + json"

definition THEME_CONFIG :: string where
  "THEME_CONFIG = ''theme.json''"

definition THEMES_DIRECTORY :: string where
  "THEMES_DIRECTORY = ''themes''"

text \<open>\<^verbatim>\<open>themeinfo.name\<close>: a TypeError on \<^verbatim>\<open>null\<close>, \<open>None\<close> for \<^verbatim>\<open>undefined\<close>.\<close>

definition name_of :: "json \<Rightarrow> exn + json option" where
  "name_of themeinfo =
    (case themeinfo of
       JNull \<Rightarrow> Inl TypeError
     | JObject members \<Rightarrow> Inr (map_of members ''name'')
     | _ \<Rightarrow> Inr None)"

definition isString :: "json option \<Rightarrow> bool" where
  "isString v = (case v of Some (JString x) \<Rightarrow> True | _ \<Rightarrow> False)"

definition validateThemeInfo :: "json \<Rightarrow> exn + bool" where
  "validateThemeInfo themeinfo =
    (case name_of themeinfo of
       Inl e \<Rightarrow> Inl e
     | Inr v \<Rightarrow> Inr (isString v \<and> v \<noteq> Some (JString [])))"

text \<open>The body of the \<^verbatim>\<open>try\<close> block, for one directory entry.\<close>

definition scanThemes_try ::
  "platform \<Rightarrow> string \<Rightarrow> string \<Rightarrow> (string, json) js_map \<Rightarrow> exn + (string, json) js_map" where
  "scanThemes_try p infopath item thememap =
    (case readFileSync p infopath of
       Inl e \<Rightarrow> Inl e
     | Inr infostr \<Rightarrow>
        (case JSON_parse p infostr of
           Inl e \<Rightarrow> Inl e
         | Inr themeinfo \<Rightarrow>
            (case validateThemeInfo themeinfo of
               Inl e \<Rightarrow> Inl e
             | Inr ok \<Rightarrow> Inr (if ok then map_set thememap item themeinfo else thememap))))"

fun scanThemes_forEach ::
  "platform \<Rightarrow> string \<Rightarrow> string list \<Rightarrow> (string, json) js_map \<times> effect list
    \<Rightarrow> (string, json) js_map \<times> effect list" where
  "scanThemes_forEach p themesdir [] acc = acc"
| "scanThemes_forEach p themesdir (item # contents) (thememap, out) =
    (let infopath = path_join p [themesdir, item, THEME_CONFIG] in
     case scanThemes_try p infopath item thememap of
       Inl err \<Rightarrow>
         scanThemes_forEach p themesdir contents
           (thememap, out @ [Log [LStr ''Warning: Unable to read file '', LStr infopath]])
     | Inr thememap' \<Rightarrow> scanThemes_forEach p themesdir contents (thememap', out))"

text \<open>
  The immutable map of themes is modelled like a \<^verbatim>\<open>Map\<close>; the order of its entries
  plays no role below. The result of \<^verbatim>\<open>scanThemes\<close>: an exception (\<^verbatim>\<open>readdirSync\<close> is outside the \<^verbatim>\<open>try\<close>),
  \<^verbatim>\<open>undefined\<close> (\<open>None\<close>: the function ends without a \<^verbatim>\<open>return\<close> when the directory
  does not exist) or the map; with it, what was written to the console.
\<close>

definition scanThemes ::
  "platform \<Rightarrow> string \<Rightarrow> (exn + (string, json) js_map option) \<times> effect list" where
  "scanThemes p themesdir =
    (let thememap = [] in
     if existsSync p themesdir then
       (case readdirSync p themesdir of
          Inl e \<Rightarrow> (Inl e, [])
        | Inr contents \<Rightarrow>
           (let (thememap', out) = scanThemes_forEach p themesdir contents (thememap, [])
            in (Inr (Some thememap'), out)))
     else (Inr None, []))"

definition getFullConfig :: "platform \<Rightarrow> main_state \<Rightarrow> Config \<times> main_state" where
  "getFullConfig p s =
    (let fullConfig = config s;
         themesDir = path_join p [dirname p, THEMES_DIRECTORY];
         fullConfig = fullConfig\<lparr>themePath := Some (path_join p [themesDir, theme (config s)])\<rparr>;
         s1 = log [LStr ''Full config: '', LConfig fullConfig] s
     in (fullConfig, s1))"

definition getThemes :: "main_state \<Rightarrow> json list" where
  "getThemes s = map snd (themes s)"

definition handleConfigRequest :: "platform \<Rightarrow> Message \<Rightarrow> main_state \<Rightarrow> Message \<times> main_state" where
  "handleConfigRequest p msg s = (let (c, s1) = getFullConfig p s in (ConfigMessage c, s1))"

definition handleThemesRequest :: "Message \<Rightarrow> main_state \<Rightarrow> Message" where
  "handleThemesRequest msg s = ThemesMessage (getThemes s)"

text \<open>
  \<^verbatim>\<open>handleAsyncIpc\<close>: the switch computes a reply (\<open>None\<close> for \<^verbatim>\<open>null\<close>) or lets an
  exception through; a reply is sent to the sender.
\<close>

definition dispatch ::
  "platform \<Rightarrow> WebContents \<Rightarrow> Message \<Rightarrow> exn + Terminal \<Rightarrow> main_state
    \<Rightarrow> (exn + Message option) \<times> main_state" where
  "dispatch p sender msg spawned s =
    (case msg_type msg of
       CONFIG_REQUEST \<Rightarrow>
         (let (reply, s1) = handleConfigRequest p msg s in (Inr (Some reply), s1))
     | FRAME_DATA_REQUEST \<Rightarrow>
         (Inr None, log [LStr ''Messages.MessageType.FRAME_DATA_REQUEST is not implemented.''] s)
     | THEMES_REQUEST \<Rightarrow> (Inr (Some (handleThemesRequest msg s)), s)
     | PTY_CREATE \<Rightarrow>
         (case handlePtyCreate sender msg spawned s of
            (Inl e, s1) \<Rightarrow> (Inl e, s1)
          | (Inr reply, s1) \<Rightarrow> (Inr (Some reply), s1))
     | PTY_RESIZE \<Rightarrow> (Inr None, handlePtyResize msg s)
     | PTY_INPUT \<Rightarrow> (Inr None, handlePtyInput msg s)
     | PTY_CLOSE \<Rightarrow> (Inr None, handlePtyClose msg s)
     | _ \<Rightarrow> (Inr None, s))"

definition handleAsyncIpc ::
  "platform \<Rightarrow> WebContents \<Rightarrow> Message \<Rightarrow> exn + Terminal \<Rightarrow> main_state
    \<Rightarrow> exn option \<times> main_state" where
  "handleAsyncIpc p sender msg spawned s =
    (let s1 = log [LStr ''Main IPC incoming: '', LMsg msg] s in
     case dispatch p sender msg spawned s1 of
       (Inl e, s2) \<Rightarrow> (Some e, s2)
     | (Inr None, s2) \<Rightarrow> (None, s2)
     | (Inr (Some reply), s2) \<Rightarrow> (None, send sender reply s2))"

subsection \<open>Events\<close>

text \<open>
  What reaches the main process after start-up: a message on the channel (with what
  \<^verbatim>\<open>pty.spawn\<close> would do for it, which only a request to create a session looks at),
  data or the exit of a pty, the closing of a window. A pty event runs every closure
  subscribed on that pty object, in the order of subscription; nothing in \<^verbatim>\<open>main.ts\<close>
  ever removes a subscription. An exception ends the handler of the event, not the
  process.
\<close>

datatype event =
    IpcMessage WebContents Message "exn + Terminal"
  | PtyDataEvent Terminal string
  | PtyExitEvent Terminal
  | WindowClosed nat

definition emit_data :: "Terminal \<Rightarrow> string \<Rightarrow> main_state \<Rightarrow> main_state" where
  "emit_data trm d s = fold (\<lambda>l s'. if l_term l = trm then onData l d s' else s') (listeners s) s"

definition emit_exit :: "Terminal \<Rightarrow> main_state \<Rightarrow> main_state" where
  "emit_exit trm s = fold (\<lambda>l s'. if l_term l = trm then onExit l s' else s') (listeners s) s"

fun step :: "platform \<Rightarrow> event \<Rightarrow> main_state \<Rightarrow> exn option \<times> main_state" where
  "step p (IpcMessage sender msg spawned) s = handleAsyncIpc p sender msg spawned s"
| "step p (PtyDataEvent trm d) s = (None, emit_data trm d s)"
| "step p (PtyExitEvent trm) s = (None, emit_exit trm s)"
| "step p (WindowClosed w) s = cleanUpPtyWindow w s"

definition run :: "platform \<Rightarrow> event list \<Rightarrow> main_state \<Rightarrow> main_state" where
  "run p evs s = fold (\<lambda>ev s'. snd (step p ev s')) evs s"

text \<open>The ids of the sessions announced as created, in the order of the trace.\<close>

fun created_ids :: "effect list \<Rightarrow> nat list" where
  "created_ids [] = []"
| "created_ids (Send sender (CreatedPtyMessage i) # out) = i # created_ids out"
| "created_ids (e # out) = created_ids out"

definition new_effects :: "main_state \<Rightarrow> main_state \<Rightarrow> effect list" where
  "new_effects s s' = drop (length (effects s)) (effects s')"

subsection \<open>Start-up\<close>

text \<open>
  \<^verbatim>\<open>main\<close>, from the point where \<^verbatim>\<open>readConfigurationFile\<close> has returned: the arguments
  are the \<^verbatim>\<open>theme\<close> field of the configuration read (\<open>None\<close> when absent) and its
  \<^verbatim>\<open>blinkingCursor\<close> field (\<open>None\<close> when it is not a boolean). \<^verbatim>\<open>themes.get\<close> on
  \<^verbatim>\<open>undefined\<close> is a TypeError. The counter and the map of sessions start as the module
  initialises them.
\<close>

definition main :: "platform \<Rightarrow> string option \<Rightarrow> bool option \<Rightarrow> exn + main_state" where
  "main p file_theme file_blinkingCursor =
    (let blinking = (case file_blinkingCursor of Some b \<Rightarrow> b | None \<Rightarrow> False);
         themesdir = path_join p [dirname p, THEMES_DIRECTORY]
     in case scanThemes p themesdir of
          (Inl e, out) \<Rightarrow> Inl e
        | (Inr None, out) \<Rightarrow> Inl TypeError
        | (Inr (Some thememap), out) \<Rightarrow>
            (let t = (case file_theme of
                        None \<Rightarrow> ''default''
                      | Some n \<Rightarrow> if map_get thememap n = None then ''default'' else n)
             in Inr \<lparr>config = \<lparr>theme = t, blinkingCursor = blinking, themePath = None\<rparr>,
                     themes = thememap, ptyCounter = 0, ptyMap = [], listeners = [],
                     effects = out\<rparr>))"

section \<open>The tip viewer (TipViewer.connectedCallback)\<close>

text \<open>
  A JavaScript number that holds an integer or \<^verbatim>\<open>NaN\<close> (\<open>None\<close>). The remainder
  \<^verbatim>\<open>%\<close> takes the sign of the dividend and is \<^verbatim>\<open>NaN\<close> for a zero divisor. The tips
  are the constant \<^verbatim>\<open>tipData\<close> of the module, an argument here; of the viewer, the
  index and the tip handed to \<^verbatim>\<open>_setTipHTML\<close> are kept (\<open>None\<close> for \<^verbatim>\<open>undefined\<close>).
\<close>

type_synonym js_number = "int option"

definition js_add :: "js_number \<Rightarrow> js_number \<Rightarrow> js_number" where
  "js_add a b = (case (a, b) of (Some x, Some y) \<Rightarrow> Some (x + y) | _ \<Rightarrow> None)"

definition js_sub :: "js_number \<Rightarrow> js_number \<Rightarrow> js_number" where
  "js_sub a b = (case (a, b) of (Some x, Some y) \<Rightarrow> Some (x - y) | _ \<Rightarrow> None)"

definition js_rem :: "js_number \<Rightarrow> js_number \<Rightarrow> js_number" where
  "js_rem a b =
    (case (a, b) of
       (Some x, Some y) \<Rightarrow> if y = 0 then None else Some (x smod y)
     | _ \<Rightarrow> None)"

record TipViewer =
  tipIndex :: js_number
  tipHTML :: "string option"

definition getTipCount :: "string list \<Rightarrow> js_number" where
  "getTipCount tipData = Some (int (length tipData))"

definition getTipHTML :: "string list \<Rightarrow> js_number \<Rightarrow> string option" where
  "getTipHTML tipData tipNumber =
    (case tipNumber of
       None \<Rightarrow> None
     | Some n \<Rightarrow> if 0 \<le> n \<and> n < int (length tipData) then Some (tipData ! nat n) else None)"

definition setTipHTML :: "string option \<Rightarrow> TipViewer \<Rightarrow> TipViewer" where
  "setTipHTML html v = v\<lparr>tipHTML := html\<rparr>"

definition nextButton_click :: "string list \<Rightarrow> TipViewer \<Rightarrow> TipViewer" where
  "nextButton_click tipData v =
    (let v1 = v\<lparr>tipIndex := js_rem (js_add (tipIndex v) (Some 1)) (getTipCount tipData)\<rparr>
     in setTipHTML (getTipHTML tipData (tipIndex v1)) v1)"

definition previousButton_click :: "string list \<Rightarrow> TipViewer \<Rightarrow> TipViewer" where
  "previousButton_click tipData v =
    (let v1 = v\<lparr>tipIndex :=
                js_rem (js_sub (js_add (tipIndex v) (getTipCount tipData)) (Some 1))
                  (getTipCount tipData)\<rparr>
     in setTipHTML (getTipHTML tipData (tipIndex v1)) v1)"

section \<open>Notions used in the properties\<close>

text \<open>
  The theme a directory entry stands for, in the words of the specification: the content
  of its \<^verbatim>\<open>theme.json\<close> when the file can be read, parses, and is an object whose
  \<^verbatim>\<open>name\<close> is a non-empty string.
\<close>

definition valid_theme :: "platform \<Rightarrow> string \<Rightarrow> string \<Rightarrow> json option" where
  "valid_theme p themesdir item =
    (case readFileSync p (path_join p [themesdir, item, THEME_CONFIG]) of
       Inl e \<Rightarrow> None
     | Inr infostr \<Rightarrow>
        (case JSON_parse p infostr of
           Inl e \<Rightarrow> None
         | Inr themeinfo \<Rightarrow>
            (case themeinfo of
               JObject members \<Rightarrow>
                 (case map_of members ''name'' of
                    Some (JString n) \<Rightarrow> if n = [] then None else Some themeinfo
                  | _ \<Rightarrow> None)
             | _ \<Rightarrow> None)))"

text \<open>
  A later state of the same process run: the trace has only grown, the counter has not
  gone down and, when the counter is still below \<open>2^53\<close>, the sessions announced in
  between have strictly increasing ids, all above the old counter and none above the
  new one.
\<close>

definition advances :: "main_state \<Rightarrow> main_state \<Rightarrow> bool" where
  "advances s s' \<longleftrightarrow>
    (\<exists>out. effects s' = effects s @ out \<and> ptyCounter s \<le> ptyCounter s'
       \<and> (ptyCounter s' < 2 ^ 53 \<longrightarrow>
            sorted_wrt (<) (created_ids out)
            \<and> (\<forall>i \<in> set (created_ids out). ptyCounter s < i \<and> i \<le> ptyCounter s')))"

section \<open>Concrete inputs\<close>

definition window1 :: WebContents where
  "window1 = WebContents 1 1"

definition window2 :: WebContents where
  "window2 = WebContents 2 2"

definition bash_request :: Message where
  "bash_request = CreatePtyRequestMessage ''bash'' [] 80 24"

text \<open>A platform whose application directory has no \<^verbatim>\<open>themes\<close> directory.\<close>

definition bare_platform :: platform where
  "bare_platform =
    \<lparr>dirname = ''app'',
     path_join = (\<lambda>parts. concat (map (\<lambda>part. CHR ''/'' # part) parts)),
     existsSync = (\<lambda>path. False),
     readdirSync = (\<lambda>path. Inl (FsError ''ENOENT'')),
     readFileSync = (\<lambda>path. Inl (FsError ''ENOENT'')),
     JSON_parse = (\<lambda>str. Inl SyntaxError)\<rparr>"

definition start_state :: main_state where
  "start_state =
    \<lparr>config = \<lparr>theme = ''default'', blinkingCursor = False, themePath = None\<rparr>,
     themes = [], ptyCounter = 0, ptyMap = [], listeners = [], effects = []\<rparr>"

text \<open>Two sessions of window 1 (ids 1 and 2, pty objects 10 and 11), one of window 2.\<close>

definition three_sessions :: main_state where
  "three_sessions =
    start_state\<lparr>ptyCounter := 3,
      ptyMap := [(1, \<lparr>windowId = 1, ptyTerm = 10\<rparr>), (2, \<lparr>windowId = 1, ptyTerm = 11\<rparr>),
                 (3, \<lparr>windowId = 2, ptyTerm = 12\<rparr>)],
      listeners := [Listener 10 1 window1, Listener 11 2 window1, Listener 12 3 window2]\<rparr>"

text \<open>The state after window 1 asked for one session (pty object 10).\<close>

definition one_session :: main_state where
  "one_session = snd (createPty window1 ''bash'' [] 80 24 (Inr 10) start_state)"

text \<open>The state after window 1 asked for a session and then closed it.\<close>

definition closed_session :: main_state where
  "closed_session =
    run bare_platform
      [IpcMessage window1 bash_request (Inr 10), IpcMessage window1 (PtyClose 1) (Inr 0)]
      start_state"

text \<open>
  Window 1 asks for two sessions and closes the first, the process of the second exits,
  window 1 is closed, and window 2 asks for a session.
\<close>

definition busy_run :: "event list" where
  "busy_run =
    [IpcMessage window1 bash_request (Inr 10), IpcMessage window1 bash_request (Inr 11),
     IpcMessage window1 (PtyClose 1) (Inr 0), PtyExitEvent 11, WindowClosed 1,
     IpcMessage window2 bash_request (Inr 12)]"

section \<open>Properties\<close>

declare toString10.simps [simp del] toString16.simps [simp del]

subsection \<open>Basic facts\<close>

lemma map_get_delete_same: "map_get (map_delete m k) k = None"
  by (simp add: map_get_def map_delete_def delete_conv')

lemma map_delete_absent: "map_get m k = None \<Longrightarrow> map_delete m k = m"
  by (simp add: map_get_def map_delete_def map_of_eq_None_iff)

lemma map_get_set_same: "map_get (map_set m k v) k = Some v"
  by (simp add: map_get_def map_set_def update_conv')

lemma js_increment_below: "n < 2 ^ 53 \<Longrightarrow> js_increment n = n + 1"
  by (simp add: js_increment_def)

lemma js_increment_ge: "n \<le> js_increment n"
  by (simp add: js_increment_def)

lemma js_increment_gt: "js_increment n < 2 ^ 53 \<Longrightarrow> n < js_increment n"
  by (simp add: js_increment_def split: if_splits)

lemma js_increment_bounded: "n \<le> 2 ^ 53 \<Longrightarrow> js_increment n \<le> 2 ^ 53"
  by (simp add: js_increment_def)

lemma js_increment_small:
  "js_increment 0 = 1" "js_increment 1 = 2" "js_increment (Suc 0) = 2" "js_increment 2 = 3"
  "js_increment 3 = 4"
  by (simp_all add: js_increment_def)

text \<open>At \<open>2^53\<close> the counter stays where it is: the same id would be given out again.\<close>

lemma js_increment_at_limit: "js_increment (2 ^ 53) = 2 ^ 53"
  by (simp add: js_increment_def)

lemma createPty_Inr:
  "createPty sender file args cols rows (Inr trm) s =
    (Inr (js_increment (ptyCounter s)),
     s\<lparr>ptyCounter := js_increment (ptyCounter s),
       ptyMap := map_set (ptyMap s) (js_increment (ptyCounter s))
          \<lparr>windowId = wc_windowId sender, ptyTerm = trm\<rparr>,
       listeners := listeners s @ [Listener trm (js_increment (ptyCounter s)) sender],
       effects := effects s @ [Spawn file args cols rows]\<rparr>)"
  by (simp add: createPty_def emit_def fromWebContents_id_def Let_def)

lemma createPty_Inl:
  "createPty sender file args cols rows (Inl e) s =
    (Inl e, s\<lparr>effects := effects s @ [Spawn file args cols rows]\<rparr>)"
  by (simp add: createPty_def emit_def)

lemma three_sessions_facts:
  "map_get (ptyMap three_sessions) 2 = Some \<lparr>windowId = 1, ptyTerm = 11\<rparr>"
  "map_get (ptyMap three_sessions) 7 = None"
  "map_delete (ptyMap three_sessions) 2 =
    [(1, \<lparr>windowId = 1, ptyTerm = 10\<rparr>), (3, \<lparr>windowId = 2, ptyTerm = 12\<rparr>)]"
  "effects three_sessions = []"
  by (simp_all add: three_sessions_def start_state_def map_get_def map_delete_def)

subsection \<open>Requests on an absent session\<close>

text \<open>
  Claim C6. For an id that has no entry in \<^verbatim>\<open>ptyMap\<close>, \<^verbatim>\<open>handlePtyInput\<close> and
  \<^verbatim>\<open>handlePtyResize\<close> write the advisory to the console and do nothing else: the state is
  the same but for that line, so no session is touched, no message is sent and no pty
  object is called. Through the dispatcher the same holds, after the line that logs the
  incoming message, and no exception leaves it.
\<close>

theorem input_resize_absent_id:
  "map_get (ptyMap s) i = None \<Longrightarrow>
     handlePtyInput (PtyInput i d) s = s\<lparr>effects := effects s @ [Log advisory]\<rparr>
   \<and> handlePtyResize (PtyResize i columns rows) s = s\<lparr>effects := effects s @ [Log advisory]\<rparr>
   \<and> handleAsyncIpc p sender (PtyInput i d) spawned s =
       (None, s\<lparr>effects := effects s @
          [Log [LStr ''Main IPC incoming: '', LMsg (PtyInput i d)], Log advisory]\<rparr>)
   \<and> handleAsyncIpc p sender (PtyResize i columns rows) spawned s =
       (None, s\<lparr>effects := effects s @
          [Log [LStr ''Main IPC incoming: '', LMsg (PtyResize i columns rows)], Log advisory]\<rparr>)"
  by (simp add: handlePtyInput_def handlePtyResize_def handleAsyncIpc_def dispatch_def
      log_def emit_def)

theorem input_resize_absent_id_witness:
  "map_get (ptyMap three_sessions) 7 = None
   \<and> handlePtyInput (PtyInput 7 ''ls'') three_sessions = three_sessions\<lparr>effects := [Log advisory]\<rparr>
   \<and> handlePtyResize (PtyResize 7 132 43) three_sessions =
       three_sessions\<lparr>effects := [Log advisory]\<rparr>
   \<and> fst (handleAsyncIpc bare_platform window1 (PtyInput 7 ''ls'') (Inl TypeError) three_sessions)
       = None
   \<and> fst (handleAsyncIpc bare_platform window1 (PtyResize 7 132 43) (Inl TypeError)
       three_sessions) = None"
  using input_resize_absent_id [of three_sessions 7 "''ls''" 132 43 bare_platform window1
      "Inl TypeError", OF three_sessions_facts(2)]
  by (simp add: three_sessions_facts)

subsection \<open>Closing a session\<close>

text \<open>
  Claim C5. \<^verbatim>\<open>handlePtyClose\<close> on an id that has an entry destroys the pty object of the
  entry and deletes the entry, and adds nothing else to the trace (no message); the id
  is then absent, and a second close only writes the advisory. On an id without an entry
  it only writes the advisory. The dispatcher runs it after logging the incoming message,
  sends no reply and lets no exception through.
\<close>

theorem close_idempotent:
  "(\<forall>tup. map_get (ptyMap s) i = Some tup \<longrightarrow>
      handlePtyClose (PtyClose i) s =
        s\<lparr>ptyMap := map_delete (ptyMap s) i, effects := effects s @ [TermDestroy (ptyTerm tup)]\<rparr>
    \<and> map_get (ptyMap (handlePtyClose (PtyClose i) s)) i = None
    \<and> handlePtyClose (PtyClose i) (handlePtyClose (PtyClose i) s) =
        s\<lparr>ptyMap := map_delete (ptyMap s) i,
          effects := effects s @ [TermDestroy (ptyTerm tup), Log advisory]\<rparr>)
   \<and> (map_get (ptyMap s) i = None \<longrightarrow>
        handlePtyClose (PtyClose i) s = s\<lparr>effects := effects s @ [Log advisory]\<rparr>)
   \<and> handleAsyncIpc p sender (PtyClose i) spawned s =
        (None, handlePtyClose (PtyClose i)
           (s\<lparr>effects := effects s @ [Log [LStr ''Main IPC incoming: '', LMsg (PtyClose i)]]\<rparr>))"
proof -
  have a: "handleAsyncIpc p sender (PtyClose i) spawned s =
        (None, handlePtyClose (PtyClose i)
           (s\<lparr>effects := effects s @ [Log [LStr ''Main IPC incoming: '', LMsg (PtyClose i)]]\<rparr>))"
    by (simp add: handleAsyncIpc_def dispatch_def log_def emit_def)
  have b: "map_get (ptyMap s) i = None \<longrightarrow>
        handlePtyClose (PtyClose i) s = s\<lparr>effects := effects s @ [Log advisory]\<rparr>"
    by (simp add: handlePtyClose_def log_def emit_def)
  have c: "\<forall>tup. map_get (ptyMap s) i = Some tup \<longrightarrow>
      handlePtyClose (PtyClose i) s =
        s\<lparr>ptyMap := map_delete (ptyMap s) i, effects := effects s @ [TermDestroy (ptyTerm tup)]\<rparr>
    \<and> map_get (ptyMap (handlePtyClose (PtyClose i) s)) i = None
    \<and> handlePtyClose (PtyClose i) (handlePtyClose (PtyClose i) s) =
        s\<lparr>ptyMap := map_delete (ptyMap s) i,
          effects := effects s @ [TermDestroy (ptyTerm tup), Log advisory]\<rparr>"
    by (simp add: handlePtyClose_def log_def emit_def map_get_delete_same)
  from c b a show ?thesis by (intro conjI)
qed

theorem close_idempotent_witness:
  "map_get (ptyMap three_sessions) 2 = Some \<lparr>windowId = 1, ptyTerm = 11\<rparr>
   \<and> handlePtyClose (PtyClose 2) three_sessions =
       three_sessions\<lparr>ptyMap := [(1, \<lparr>windowId = 1, ptyTerm = 10\<rparr>),
           (3, \<lparr>windowId = 2, ptyTerm = 12\<rparr>)],
         effects := [TermDestroy 11]\<rparr>
   \<and> handlePtyClose (PtyClose 2) (handlePtyClose (PtyClose 2) three_sessions) =
       three_sessions\<lparr>ptyMap := [(1, \<lparr>windowId = 1, ptyTerm = 10\<rparr>),
           (3, \<lparr>windowId = 2, ptyTerm = 12\<rparr>)],
         effects := [TermDestroy 11, Log advisory]\<rparr>
   \<and> map_get (ptyMap three_sessions) 7 = None
   \<and> handlePtyClose (PtyClose 7) three_sessions = three_sessions\<lparr>effects := [Log advisory]\<rparr>"
proof -
  note present = three_sessions_facts(1) and absent = three_sessions_facts(2)
    and deleted = three_sessions_facts(3) and quiet = three_sessions_facts(4)
  note first = close_idempotent [of three_sessions 2 bare_platform window1 "Inl TypeError",
      THEN conjunct1, THEN spec, THEN mp, OF present]
  note other = close_idempotent [of three_sessions 7 bare_platform window1 "Inl TypeError",
      THEN conjunct2, THEN conjunct1, THEN mp, OF absent]
  have "handlePtyClose (PtyClose 2) three_sessions =
       three_sessions\<lparr>ptyMap := [(1, \<lparr>windowId = 1, ptyTerm = 10\<rparr>),
           (3, \<lparr>windowId = 2, ptyTerm = 12\<rparr>)],
         effects := [TermDestroy 11]\<rparr>"
    using first [THEN conjunct1] by (simp add: deleted quiet)
  moreover have "handlePtyClose (PtyClose 2) (handlePtyClose (PtyClose 2) three_sessions) =
       three_sessions\<lparr>ptyMap := [(1, \<lparr>windowId = 1, ptyTerm = 10\<rparr>),
           (3, \<lparr>windowId = 2, ptyTerm = 12\<rparr>)],
         effects := [TermDestroy 11, Log advisory]\<rparr>"
    using first [THEN conjunct2, THEN conjunct2] by (simp add: deleted quiet)
  moreover have "handlePtyClose (PtyClose 7) three_sessions =
      three_sessions\<lparr>effects := [Log advisory]\<rparr>"
    using other by (simp add: quiet)
  ultimately show ?thesis
    using present absent by (intro conjI)
qed

subsection \<open>A failing spawn\<close>

text \<open>
  Claim C7. When \<^verbatim>\<open>pty.spawn\<close> throws, the exception leaves \<^verbatim>\<open>createPty\<close>,
  \<^verbatim>\<open>handlePtyCreate\<close> and \<^verbatim>\<open>handleAsyncIpc\<close> in the same call. The counter, the map of
  sessions and the listeners stay as they were, and the trace gains only the console
  line for the incoming message and the call of \<^verbatim>\<open>pty.spawn\<close>: nothing is sent.
\<close>

theorem spawn_failure_surfaced:
  "createPty sender file args cols rows (Inl e) s =
     (Inl e, s\<lparr>effects := effects s @ [Spawn file args cols rows]\<rparr>)
   \<and> handlePtyCreate sender (CreatePtyRequestMessage file args cols rows) (Inl e) s =
     (Inl e, s\<lparr>effects := effects s @ [Spawn file args cols rows]\<rparr>)
   \<and> handleAsyncIpc p sender (CreatePtyRequestMessage file args cols rows) (Inl e) s =
     (Some e, s\<lparr>effects := effects s @
        [Log [LStr ''Main IPC incoming: '', LMsg (CreatePtyRequestMessage file args cols rows)],
         Spawn file args cols rows]\<rparr>)"
  by (simp add: createPty_def handlePtyCreate_def handleAsyncIpc_def dispatch_def log_def emit_def)

subsection \<open>Messages the dispatcher does not handle\<close>

text \<open>
  Claim C8. For a message whose type tag is not one of the seven cases of the switch,
  \<^verbatim>\<open>handleAsyncIpc\<close> writes the incoming message to the console and does nothing else:
  no exception, no reply, and the state is the same but for that line.
\<close>

theorem unrecognized_message_dropped:
  "msg_type msg \<notin> {CONFIG_REQUEST, FRAME_DATA_REQUEST, THEMES_REQUEST, PTY_CREATE, PTY_RESIZE,
      PTY_INPUT, PTY_CLOSE} \<Longrightarrow>
   handleAsyncIpc p sender msg spawned s =
     (None, s\<lparr>effects := effects s @ [Log [LStr ''Main IPC incoming: '', LMsg msg]]\<rparr>)"
  by (cases "msg_type msg") (simp_all add: handleAsyncIpc_def dispatch_def log_def emit_def)

theorem unrecognized_message_dropped_witness:
  "msg_type (OtherMessage 99) \<notin> {CONFIG_REQUEST, FRAME_DATA_REQUEST, THEMES_REQUEST, PTY_CREATE,
      PTY_RESIZE, PTY_INPUT, PTY_CLOSE}
   \<and> handleAsyncIpc bare_platform window1 (OtherMessage 99) (Inl TypeError) three_sessions =
     (None, three_sessions\<lparr>effects := [Log [LStr ''Main IPC incoming: '', LMsg (OtherMessage 99)]]\<rparr>)"
  using unrecognized_message_dropped [of "OtherMessage 99" bare_platform window1 "Inl TypeError"
      three_sessions]
  by (simp add: three_sessions_facts)

subsection \<open>Cleaning up after a window\<close>

lemma drain_eq: "drain it keys = keys @ it"
  by (induction it arbitrary: keys) auto

lemma map_of_entry:
  "distinct (map fst m) \<Longrightarrow> e \<in> set m \<Longrightarrow> map_of m (fst e) = Some (snd e)"
  by (cases e) simp

lemma cleanUp_forEach_filter:
  "distinct (map fst (ptyMap s)) \<Longrightarrow> distinct keys \<Longrightarrow> set keys \<subseteq> fst ` set (ptyMap s) \<Longrightarrow>
   cleanUp_forEach w keys s =
     (None, s\<lparr>ptyMap := filter (\<lambda>e. fst e \<notin> set keys \<or> windowId (snd e) \<noteq> w) (ptyMap s),
        effects := effects s @
          concat (map (\<lambda>k. case map_of (ptyMap s) k of
                              Some tup \<Rightarrow> if windowId tup = w then [TermDestroy (ptyTerm tup)] else []
                            | None \<Rightarrow> []) keys)\<rparr>)"
proof (induction keys arbitrary: s)
  case Nil
  then show ?case by simp
next
  case (Cons k keys)
  let ?m = "ptyMap s"
  from Cons.prems obtain tup where tup: "map_of ?m k = Some tup"
    by (cases "map_of ?m k") (auto simp: map_of_eq_None_iff)
  have same: "snd e = tup" if "e \<in> set ?m" "fst e = k" for e
    using map_of_entry [OF Cons.prems(1) that(1)] that(2) tup by simp
  show ?case
  proof (cases "windowId tup = w")
    case False
    have "filter (\<lambda>e. fst e \<notin> set keys \<or> windowId (snd e) \<noteq> w) ?m =
          filter (\<lambda>e. fst e \<notin> set (k # keys) \<or> windowId (snd e) \<noteq> w) ?m"
      by (rule filter_cong) (use same False in auto)
    with False tup Cons.prems Cons.IH [of s] show ?thesis
      by (simp add: map_get_def)
  next
    case True
    let ?s1 = "s\<lparr>effects := effects s @ [TermDestroy (ptyTerm tup)],
                  ptyMap := map_delete ?m k\<rparr>"
    have d1: "distinct (map fst (ptyMap ?s1))"
      using Cons.prems(1) by (simp add: map_delete_def distinct_delete)
    have "set (map fst (map_delete ?m k)) = set (map fst ?m) - {k}"
      by (simp add: map_delete_def delete_keys)
    with Cons.prems(2,3) have sub: "set keys \<subseteq> fst ` set (ptyMap ?s1)"
      by auto
    have look: "map_of (map_delete ?m k) k' = map_of ?m k'" if "k' \<in> set keys" for k'
    proof -
      from that Cons.prems(2) have "k' \<noteq> k" by auto
      then show ?thesis by (simp add: map_delete_def delete_conv')
    qed
    have fil: "filter (\<lambda>e. fst e \<notin> set keys \<or> windowId (snd e) \<noteq> w) (map_delete ?m k) =
          filter (\<lambda>e. fst e \<notin> set (k # keys) \<or> windowId (snd e) \<noteq> w) ?m"
      unfolding map_delete_def AList.delete_eq filter_filter
      by (rule filter_cong) (use same True in auto)
    have eff: "map (\<lambda>k'. case map_of (map_delete ?m k) k' of
                    Some tup \<Rightarrow> if windowId tup = w then [TermDestroy (ptyTerm tup)] else []
                  | None \<Rightarrow> []) keys =
               map (\<lambda>k'. case map_of ?m k' of
                    Some tup \<Rightarrow> if windowId tup = w then [TermDestroy (ptyTerm tup)] else []
                  | None \<Rightarrow> []) keys"
      by (rule map_cong) (simp_all add: look)
    have step: "cleanUp_forEach w (k # keys) s = cleanUp_forEach w keys ?s1"
      using True tup by (simp add: map_get_def emit_def)
    from Cons.IH [OF d1 _ sub] Cons.prems(2)
    have "cleanUp_forEach w keys ?s1 =
      (None, ?s1\<lparr>ptyMap := filter (\<lambda>e. fst e \<notin> set keys \<or> windowId (snd e) \<noteq> w) (ptyMap ?s1),
        effects := effects ?s1 @
          concat (map (\<lambda>k. case map_of (ptyMap ?s1) k of
                              Some tup \<Rightarrow> if windowId tup = w then [TermDestroy (ptyTerm tup)] else []
                            | None \<Rightarrow> []) keys)\<rparr>)"
      by simp
    also have "ptyMap ?s1 = map_delete ?m k"
      by simp
    finally show ?thesis
      unfolding step fil eff using tup True by simp
  qed
qed

lemma destroyed_in_order:
  "distinct (map fst m) \<Longrightarrow> set xs \<subseteq> set m \<Longrightarrow>
   concat (map (\<lambda>k. case map_of m k of
                       Some tup \<Rightarrow> if windowId tup = w then [TermDestroy (ptyTerm tup)] else []
                     | None \<Rightarrow> []) (map fst xs)) =
   map (\<lambda>e. TermDestroy (ptyTerm (snd e))) (filter (\<lambda>e. windowId (snd e) = w) xs)"
proof (induction xs)
  case Nil
  then show ?case by simp
next
  case (Cons e xs)
  from Cons.prems have here: "map_of m (fst e) = Some (snd e)"
    by (simp add: map_of_entry)
  from Cons.prems have "set xs \<subseteq> set m"
    by simp
  from Cons.IH [OF Cons.prems(1) this] show ?case
    by (simp add: here)
qed

text \<open>
  The map of sessions has one entry per key at start-up, and every event keeps it so:
  the states the properties below assume are the states the process can be in.
\<close>

lemma fold_preserves:
  "(\<And>x s. P s \<Longrightarrow> P (f x s)) \<Longrightarrow> P s \<Longrightarrow> P (fold f xs s)"
  by (induction xs arbitrary: s) auto

lemma distinct_keys_delete:
  "distinct (map_keys m) \<Longrightarrow> distinct (map_keys (map_delete m k))"
  by (simp add: map_keys_def map_delete_def distinct_delete)

lemma distinct_keys_set:
  "distinct (map_keys m) \<Longrightarrow> distinct (map_keys (map_set m k v))"
  by (simp add: map_keys_def map_set_def distinct_update)

lemma distinct_keys_onData:
  "distinct (map_keys (ptyMap s)) \<Longrightarrow> distinct (map_keys (ptyMap (onData l d s)))"
  by (simp add: onData_def logData_def log_def send_def emit_def)

lemma distinct_keys_onExit:
  "distinct (map_keys (ptyMap s)) \<Longrightarrow> distinct (map_keys (ptyMap (onExit l s)))"
  by (simp add: onExit_def log_def send_def emit_def distinct_keys_delete)

lemma distinct_keys_cleanUp_forEach:
  "distinct (map_keys (ptyMap s)) \<Longrightarrow>
   distinct (map_keys (ptyMap (snd (cleanUp_forEach w keys s))))"
  by (induction w keys s rule: cleanUp_forEach.induct)
    (auto simp: emit_def Let_def distinct_keys_delete split: option.splits)

lemma distinct_keys_handleAsyncIpc:
  assumes "distinct (map_keys (ptyMap s))"
  shows "distinct (map_keys (ptyMap (snd (handleAsyncIpc p sender msg spawned s))))"
proof (cases "msg_type msg")
  case PTY_CREATE
  with assms show ?thesis
    by (cases spawned)
      (simp_all add: handleAsyncIpc_def dispatch_def handlePtyCreate_def createPty_Inr
        createPty_Inl log_def send_def emit_def distinct_keys_set)
next
  case PTY_CLOSE
  with assms show ?thesis
    by (simp add: handleAsyncIpc_def dispatch_def handlePtyClose_def log_def send_def emit_def
        Let_def distinct_keys_delete split: option.splits)
qed (use assms in \<open>simp_all add: handleAsyncIpc_def dispatch_def handleConfigRequest_def
      getFullConfig_def handlePtyResize_def handlePtyInput_def log_def send_def emit_def Let_def
      split: option.splits\<close>)

lemma distinct_keys_step:
  "distinct (map_keys (ptyMap s)) \<Longrightarrow> distinct (map_keys (ptyMap (snd (step p ev s))))"
proof (cases ev)
  case (IpcMessage sender msg spawned)
  assume "distinct (map_keys (ptyMap s))"
  with IpcMessage show ?thesis by (simp add: distinct_keys_handleAsyncIpc)
next
  case (PtyDataEvent trm d)
  assume "distinct (map_keys (ptyMap s))"
  then have "distinct (map_keys (ptyMap (emit_data trm d s)))"
    unfolding emit_data_def
    by (rule fold_preserves [rotated]) (simp add: distinct_keys_onData)
  with PtyDataEvent show ?thesis by simp
next
  case (PtyExitEvent trm)
  assume "distinct (map_keys (ptyMap s))"
  then have "distinct (map_keys (ptyMap (emit_exit trm s)))"
    unfolding emit_exit_def
    by (rule fold_preserves [rotated]) (simp add: distinct_keys_onExit)
  with PtyExitEvent show ?thesis by simp
next
  case (WindowClosed w)
  assume "distinct (map_keys (ptyMap s))"
  with WindowClosed show ?thesis
    by (simp add: cleanUpPtyWindow_def distinct_keys_cleanUp_forEach)
qed

lemma distinct_keys_run:
  "distinct (map_keys (ptyMap s)) \<Longrightarrow> distinct (map_keys (ptyMap (run p evs s)))"
  unfolding run_def by (rule fold_preserves [rotated]) (simp_all add: distinct_keys_step)

lemma distinct_keys_main:
  "main p file_theme file_blinkingCursor = Inr s \<Longrightarrow> distinct (map_keys (ptyMap s))"
  by (auto simp: main_def Let_def map_keys_def split: prod.splits sum.splits option.splits)

text \<open>The state \<open>three_sessions\<close> is what three requests lead to.\<close>

lemma three_sessions_reached:
  "ptyMap (run bare_platform
      [IpcMessage window1 bash_request (Inr 10), IpcMessage window1 bash_request (Inr 11),
       IpcMessage window2 bash_request (Inr 12)] start_state) = ptyMap three_sessions"
  "listeners (run bare_platform
      [IpcMessage window1 bash_request (Inr 10), IpcMessage window1 bash_request (Inr 11),
       IpcMessage window2 bash_request (Inr 12)] start_state) = listeners three_sessions"
  "ptyCounter (run bare_platform
      [IpcMessage window1 bash_request (Inr 10), IpcMessage window1 bash_request (Inr 11),
       IpcMessage window2 bash_request (Inr 12)] start_state) = ptyCounter three_sessions"
  by (simp_all add: run_def handleAsyncIpc_def dispatch_def handlePtyCreate_def createPty_Inr
      js_increment_small bash_request_def start_state_def three_sessions_def window1_def
      window2_def log_def send_def emit_def map_set_def)

text \<open>
  Claim C1. In a state whose map of sessions has one entry per key (as a \<^verbatim>\<open>Map\<close> has),
  \<^verbatim>\<open>cleanUpPtyWindow\<close> for window \<open>w\<close> ends without an exception, keeps exactly the
  entries whose \<^verbatim>\<open>windowId\<close> is not \<open>w\<close>, each with its value and in its place, and
  destroys the pty objects of exactly the entries whose \<^verbatim>\<open>windowId\<close> is \<open>w\<close>; nothing else
  of the state changes. Looked up by id: a session of \<open>w\<close> is gone, any other is as before.
\<close>

theorem cleanUpPtyWindow_exact:
  assumes "distinct (map_keys (ptyMap s))"
  shows "cleanUpPtyWindow w s =
      (None, s\<lparr>ptyMap := filter (\<lambda>e. windowId (snd e) \<noteq> w) (ptyMap s),
         effects := effects s @
           map (\<lambda>e. TermDestroy (ptyTerm (snd e))) (filter (\<lambda>e. windowId (snd e) = w) (ptyMap s))\<rparr>)
    \<and> (\<forall>k. map_get (ptyMap (snd (cleanUpPtyWindow w s))) k =
          (case map_get (ptyMap s) k of
             None \<Rightarrow> None
           | Some tup \<Rightarrow> if windowId tup = w then None else Some tup))"
proof -
  let ?m = "ptyMap s"
  from assms have d: "distinct (map fst ?m)"
    by (simp add: map_keys_def)
  have "filter (\<lambda>e. fst e \<notin> set (map fst ?m) \<or> windowId (snd e) \<noteq> w) ?m =
        filter (\<lambda>e. windowId (snd e) \<noteq> w) ?m"
    by (rule filter_cong) auto
  with cleanUp_forEach_filter [OF d d, of w] destroyed_in_order [OF d, of ?m w]
  have main: "cleanUpPtyWindow w s =
      (None, s\<lparr>ptyMap := filter (\<lambda>e. windowId (snd e) \<noteq> w) ?m,
         effects := effects s @
           map (\<lambda>e. TermDestroy (ptyTerm (snd e))) (filter (\<lambda>e. windowId (snd e) = w) ?m)\<rparr>)"
    by (simp add: cleanUpPtyWindow_def drain_eq map_keys_def)
  have gone: "map_of (filter P m) k = None" if "k \<notin> fst ` set m"
    for m :: "(nat \<times> PtyTuple) list" and P k
    using that by (induction m) auto
  have look: "distinct (map fst m) \<Longrightarrow>
        map_of (filter (\<lambda>e. windowId (snd e) \<noteq> w) m) k =
          (case map_of m k of
             None \<Rightarrow> None
           | Some tup \<Rightarrow> if windowId tup = w then None else Some tup)"
    for m :: "(nat \<times> PtyTuple) list" and k
    by (induction m) (auto simp: gone)
  show ?thesis
    by (simp add: main map_get_def look [OF d])
qed

theorem cleanUpPtyWindow_exact_witness:
  "distinct (map_keys (ptyMap three_sessions))
   \<and> cleanUpPtyWindow 1 three_sessions =
       (None, three_sessions\<lparr>ptyMap := [(3, \<lparr>windowId = 2, ptyTerm = 12\<rparr>)],
          effects := [TermDestroy 10, TermDestroy 11]\<rparr>)"
proof -
  have keys: "distinct (map_keys (ptyMap three_sessions))"
    by (simp add: three_sessions_def start_state_def map_keys_def)
  from cleanUpPtyWindow_exact [OF keys, of 1, THEN conjunct1] keys show ?thesis
    by (simp add: three_sessions_def start_state_def)
qed

subsection \<open>Session ids\<close>

lemma created_ids_append: "created_ids (a @ b) = created_ids a @ created_ids b"
  by (induction a rule: created_ids.induct) auto

lemma advances_refl: "advances s s"
  by (simp add: advances_def)

lemma advances_trans:
  assumes "advances s s'" and "advances s' s''"
  shows "advances s s''"
proof -
  from assms(1) obtain a where a: "effects s' = effects s @ a" "ptyCounter s \<le> ptyCounter s'"
      "ptyCounter s' < 2 ^ 53 \<longrightarrow> sorted_wrt (<) (created_ids a)
        \<and> (\<forall>i \<in> set (created_ids a). ptyCounter s < i \<and> i \<le> ptyCounter s')"
    unfolding advances_def by blast
  from assms(2) obtain b where b: "effects s'' = effects s' @ b" "ptyCounter s' \<le> ptyCounter s''"
      "ptyCounter s'' < 2 ^ 53 \<longrightarrow> sorted_wrt (<) (created_ids b)
        \<and> (\<forall>i \<in> set (created_ids b). ptyCounter s' < i \<and> i \<le> ptyCounter s'')"
    unfolding advances_def by blast
  have "effects s'' = effects s @ (a @ b)"
    using a(1) b(1) by simp
  moreover have "ptyCounter s \<le> ptyCounter s''"
    using a(2) b(2) by simp
  moreover have "sorted_wrt (<) (created_ids (a @ b))
      \<and> (\<forall>i \<in> set (created_ids (a @ b)). ptyCounter s < i \<and> i \<le> ptyCounter s'')"
    if below: "ptyCounter s'' < 2 ^ 53"
  proof -
    from below b(2) have "ptyCounter s' < 2 ^ 53"
      by simp
    with a(3) have a': "sorted_wrt (<) (created_ids a)"
        "\<forall>i \<in> set (created_ids a). ptyCounter s < i \<and> i \<le> ptyCounter s'"
      by simp_all
    from below b(3) have b': "sorted_wrt (<) (created_ids b)"
        "\<forall>i \<in> set (created_ids b). ptyCounter s' < i \<and> i \<le> ptyCounter s''"
      by simp_all
    have "sorted_wrt (<) (created_ids (a @ b))"
      using a' b' by (fastforce simp: created_ids_append sorted_wrt_append)
    moreover have "\<forall>i \<in> set (created_ids (a @ b)). ptyCounter s < i \<and> i \<le> ptyCounter s''"
      using a(2) a'(2) b(2) b'(2) by (fastforce simp: created_ids_append)
    ultimately show ?thesis ..
  qed
  ultimately show ?thesis
    unfolding advances_def by blast
qed

text \<open>A step that neither creates a session nor touches the counter.\<close>

lemma advances_quiet:
  "effects s' = effects s @ out \<Longrightarrow> created_ids out = [] \<Longrightarrow> ptyCounter s' = ptyCounter s \<Longrightarrow>
   advances s s'"
  unfolding advances_def by (intro exI [of _ out]) simp

lemma advances_onData: "advances s (onData l d s)"
  by (rule advances_quiet [where out = "[Log [LStr (''pty process got data for ptyID='' @ toString10 (l_ptyId l))],
         Log [LStr (substituteBadChars d)],
         Send (l_sender l) (PtyOutput (l_ptyId l) d)]"])
    (simp_all add: onData_def logData_def log_def send_def emit_def)

lemma advances_onExit: "advances s (onExit l s)"
  by (rule advances_quiet [where out = "[Log [LStr ''pty process exited.''],
         Send (l_sender l) (PtyClose (l_ptyId l)),
         TermDestroy (l_term l)]"])
    (simp_all add: onExit_def log_def send_def emit_def)

lemma advances_fold:
  "(\<And>l s. advances s (f l s)) \<Longrightarrow> advances s (fold f ls s)"
proof (induction ls arbitrary: s)
  case Nil
  show ?case by (simp add: advances_refl)
next
  case (Cons l ls)
  from Cons.prems have "advances s (f l s)" .
  moreover from Cons have "advances (f l s) (fold f ls (f l s))" by blast
  ultimately show ?case by (auto intro: advances_trans)
qed

lemma advances_emit_data: "advances s (emit_data trm d s)"
  unfolding emit_data_def
  by (rule advances_fold) (simp add: advances_refl advances_onData)

lemma advances_emit_exit: "advances s (emit_exit trm s)"
  unfolding emit_exit_def
  by (rule advances_fold) (simp add: advances_refl advances_onExit)

lemma advances_cleanUp_forEach: "advances s (snd (cleanUp_forEach w keys s))"
proof (induction w keys s rule: cleanUp_forEach.induct)
  case (1 w s)
  show ?case by (simp add: advances_refl)
next
  case (2 w k keys s)
  show ?case
  proof (cases "map_get (ptyMap s) k")
    case None
    then show ?thesis by (simp add: advances_refl)
  next
    case (Some tup)
    show ?thesis
    proof (cases "windowId tup = w")
      case False
      with Some 2 show ?thesis by simp
    next
      case True
      let ?s1 = "emit (TermDestroy (ptyTerm tup)) s"
      let ?s2 = "?s1\<lparr>ptyMap := map_delete (ptyMap ?s1) k\<rparr>"
      have "advances s ?s2"
        by (rule advances_quiet [where out = "[TermDestroy (ptyTerm tup)]"])
          (simp_all add: emit_def)
      moreover from 2(1) [OF Some True refl] have "advances ?s2 (snd (cleanUp_forEach w keys ?s2))" .
      ultimately have "advances s (snd (cleanUp_forEach w keys ?s2))"
        by (rule advances_trans)
      with Some True show ?thesis
        by (simp add: Let_def)
    qed
  qed
qed

lemma advances_cleanUpPtyWindow: "advances s (snd (cleanUpPtyWindow w s))"
  by (simp add: cleanUpPtyWindow_def advances_cleanUp_forEach)

lemma advances_dispatch_send:
  "advances s (snd (handleAsyncIpc p sender msg spawned s))"
proof -
  let ?inc = "Log [LStr ''Main IPC incoming: '', LMsg msg]"
  show ?thesis
  proof (cases "msg_type msg")
    case CONFIG_REQUEST
    then show ?thesis
      by (intro advances_quiet [where out = "[?inc, Log [LStr ''Full config: '', LConfig (fst (getFullConfig p s))], Send sender (ConfigMessage (fst (getFullConfig p s)))]"])
       (simp_all add: handleAsyncIpc_def dispatch_def handleConfigRequest_def getFullConfig_def
          log_def send_def emit_def Let_def)
  next
    case FRAME_DATA_REQUEST
    then show ?thesis
      by (intro advances_quiet [where out = "[?inc, Log [LStr ''Messages.MessageType.FRAME_DATA_REQUEST is not implemented.'']]"])
       (simp_all add: handleAsyncIpc_def dispatch_def log_def send_def emit_def)
  next
    case THEMES_REQUEST
    then show ?thesis
      by (intro advances_quiet [where out = "[?inc, Send sender (ThemesMessage (map snd (themes s)))]"])
       (simp_all add: handleAsyncIpc_def dispatch_def handleThemesRequest_def getThemes_def
          log_def send_def emit_def)
  next
    case PTY_CREATE
    show ?thesis
    proof (cases spawned)
      case (Inl e)
      with PTY_CREATE show ?thesis
        by (intro advances_quiet [where out = "[?inc, Spawn (msg_command msg) (msg_args msg) (msg_columns msg) (msg_rows msg)]"])
          (simp_all add: handleAsyncIpc_def dispatch_def handlePtyCreate_def createPty_Inl
            log_def send_def emit_def)
    next
      case (Inr trm)
      with PTY_CREATE show ?thesis
        unfolding advances_def
        by (intro exI [of _ "[?inc, Spawn (msg_command msg) (msg_args msg) (msg_columns msg) (msg_rows msg),
              Send sender (CreatedPtyMessage (js_increment (ptyCounter s)))]"])
          (simp add: handleAsyncIpc_def dispatch_def handlePtyCreate_def createPty_Inr
            log_def send_def emit_def js_increment_ge js_increment_gt)
    qed
  next
    case PTY_RESIZE
    then show ?thesis
      by (cases "map_get (ptyMap s) (msg_id msg)")
        (auto intro!: advances_quiet simp: handleAsyncIpc_def dispatch_def handlePtyResize_def
            log_def send_def emit_def)
  next
    case PTY_INPUT
    then show ?thesis
      by (cases "map_get (ptyMap s) (msg_id msg)")
        (auto intro!: advances_quiet simp: handleAsyncIpc_def dispatch_def handlePtyInput_def
            log_def send_def emit_def)
  next
    case PTY_CLOSE
    then show ?thesis
      by (cases "map_get (ptyMap s) (msg_id msg)")
        (auto intro!: advances_quiet simp: handleAsyncIpc_def dispatch_def handlePtyClose_def
            log_def send_def emit_def)
  qed (auto intro!: advances_quiet simp: handleAsyncIpc_def dispatch_def log_def send_def emit_def)
qed

lemma advances_step: "advances s (snd (step p ev s))"
  by (cases ev)
    (simp_all add: advances_dispatch_send advances_emit_data advances_emit_exit
      advances_cleanUpPtyWindow)

lemma advances_run: "advances s (run p evs s)"
  unfolding run_def by (rule advances_fold) (rule advances_step)

lemma new_effects_advances:
  "advances s s' \<Longrightarrow> ptyCounter s' < 2 ^ 53 \<Longrightarrow>
   sorted_wrt (<) (created_ids (new_effects s s'))
     \<and> (\<forall>i \<in> set (created_ids (new_effects s s')). i \<le> ptyCounter s')"
  unfolding advances_def new_effects_def by auto

text \<open>The counter stays within the range where it started: at most \<open>2^53\<close>.\<close>

lemma ptyCounter_onData: "ptyCounter (onData l d s) = ptyCounter s"
  by (simp add: onData_def logData_def log_def send_def emit_def)

lemma ptyCounter_onExit: "ptyCounter (onExit l s) = ptyCounter s"
  by (simp add: onExit_def log_def send_def emit_def)

lemma ptyCounter_cleanUp_forEach: "ptyCounter (snd (cleanUp_forEach w keys s)) = ptyCounter s"
  by (induction w keys s rule: cleanUp_forEach.induct)
    (auto simp: emit_def Let_def split: option.splits)

lemma ptyCounter_handleAsyncIpc:
  "ptyCounter (snd (handleAsyncIpc p sender msg spawned s)) =
    (if msg_type msg = PTY_CREATE \<and> \<not> isl spawned then js_increment (ptyCounter s)
     else ptyCounter s)"
proof (cases "msg_type msg")
  case PTY_CREATE
  then show ?thesis
    by (cases spawned)
      (simp_all add: handleAsyncIpc_def dispatch_def handlePtyCreate_def createPty_Inr
        createPty_Inl log_def send_def emit_def)
qed (simp_all add: handleAsyncIpc_def dispatch_def handleConfigRequest_def getFullConfig_def
      handlePtyResize_def handlePtyInput_def handlePtyClose_def log_def send_def emit_def Let_def
      split: option.splits)

lemma ptyCounter_bounded_step:
  assumes "ptyCounter s \<le> 2 ^ 53"
  shows "ptyCounter (snd (step p ev s)) \<le> 2 ^ 53"
proof (cases ev)
  case (IpcMessage sender msg spawned)
  have "ptyCounter (snd (handleAsyncIpc p sender msg spawned s)) = ptyCounter s
      \<or> ptyCounter (snd (handleAsyncIpc p sender msg spawned s)) = js_increment (ptyCounter s)"
    by (simp add: ptyCounter_handleAsyncIpc)
  with assms js_increment_bounded [OF assms] IpcMessage show ?thesis
    by auto
next
  case (PtyDataEvent trm d)
  have "ptyCounter (emit_data trm d s) = ptyCounter s"
    unfolding emit_data_def
    by (rule fold_preserves [where P = "\<lambda>s'. ptyCounter s' = ptyCounter s"])
      (simp_all add: ptyCounter_onData)
  with assms PtyDataEvent show ?thesis by simp
next
  case (PtyExitEvent trm)
  have "ptyCounter (emit_exit trm s) = ptyCounter s"
    unfolding emit_exit_def
    by (rule fold_preserves [where P = "\<lambda>s'. ptyCounter s' = ptyCounter s"])
      (simp_all add: ptyCounter_onExit)
  with assms PtyExitEvent show ?thesis by simp
next
  case (WindowClosed w)
  with assms show ?thesis
    by (simp add: cleanUpPtyWindow_def ptyCounter_cleanUp_forEach)
qed

lemma ptyCounter_bounded_run:
  assumes "ptyCounter s \<le> 2 ^ 53"
  shows "ptyCounter (run p evs s) \<le> 2 ^ 53"
  unfolding run_def
proof (rule fold_preserves [where P = "\<lambda>s'. ptyCounter s' \<le> 2 ^ 53"])
  show "ptyCounter s \<le> 2 ^ 53" by fact
next
  fix ev and s' :: main_state
  assume "ptyCounter s' \<le> 2 ^ 53"
  then show "ptyCounter (snd (step p ev s')) \<le> 2 ^ 53"
    by (rule ptyCounter_bounded_step)
qed

lemma ptyCounter_main:
  "main p file_theme file_blinkingCursor = Inr s \<Longrightarrow> ptyCounter s = 0"
  by (auto simp: main_def Let_def split: prod.splits sum.splits option.splits)

text \<open>
  Claim C2. Start from any state and let any sequence of events happen (requests of any
  kind, pty data and exits, windows closing, failing spawns), such that the counter is
  below \<open>2^53\<close> at the end, and hence all along. The ids of the sessions announced as
  created during the run are strictly increasing in the order of their creation, hence
  pairwise distinct. A session created next gets the counter plus one, an id that was
  not given out earlier in the run, whatever has been removed since; and that id is the
  one announced to the sender.
\<close>

theorem session_ids_strictly_increasing:
  "ptyCounter (run p evs s) < 2 ^ 53 \<Longrightarrow>
     sorted_wrt (<) (created_ids (new_effects s (run p evs s)))
   \<and> distinct (created_ids (new_effects s (run p evs s)))
   \<and> fst (createPty sender file args cols rows (Inr trm) (run p evs s)) =
       Inr (ptyCounter (run p evs s) + 1)
   \<and> ptyCounter (run p evs s) + 1 \<notin> set (created_ids (new_effects s (run p evs s)))
   \<and> new_effects (run p evs s)
        (snd (handleAsyncIpc p sender (CreatePtyRequestMessage file args cols rows) (Inr trm)
           (run p evs s))) =
       [Log [LStr ''Main IPC incoming: '', LMsg (CreatePtyRequestMessage file args cols rows)],
        Spawn file args cols rows,
        Send sender (CreatedPtyMessage (ptyCounter (run p evs s) + 1))]"
proof -
  let ?s' = "run p evs s"
  let ?ids = "created_ids (new_effects s ?s')"
  assume below: "ptyCounter ?s' < 2 ^ 53"
  from new_effects_advances [OF advances_run [of s p evs] below]
  have inc: "sorted_wrt (<) ?ids" and le: "\<forall>i \<in> set ?ids. i \<le> ptyCounter ?s'"
    by simp_all
  from inc have "distinct ?ids"
    by (simp add: strict_sorted_iff)
  moreover from le have "ptyCounter ?s' + 1 \<notin> set ?ids"
    by auto
  moreover have "fst (createPty sender file args cols rows (Inr trm) ?s') = Inr (ptyCounter ?s' + 1)"
    by (simp add: createPty_Inr js_increment_below [OF below])
  moreover have "new_effects ?s'
        (snd (handleAsyncIpc p sender (CreatePtyRequestMessage file args cols rows) (Inr trm) ?s')) =
       [Log [LStr ''Main IPC incoming: '', LMsg (CreatePtyRequestMessage file args cols rows)],
        Spawn file args cols rows,
        Send sender (CreatedPtyMessage (ptyCounter ?s' + 1))]"
    by (simp add: new_effects_def handleAsyncIpc_def dispatch_def handlePtyCreate_def createPty_Inr
        js_increment_below [OF below] log_def send_def emit_def)
  ultimately show ?thesis
    using inc by (intro conjI)
qed

lemma busy_run_eq:
  "run bare_platform busy_run start_state =
    start_state\<lparr>ptyCounter := 3, ptyMap := [(3, \<lparr>windowId = 2, ptyTerm = 12\<rparr>)],
      listeners := [Listener 10 1 window1, Listener 11 2 window1, Listener 12 3 window2],
      effects :=
        [Log [LStr ''Main IPC incoming: '', LMsg bash_request], Spawn ''bash'' [] 80 24,
         Send window1 (CreatedPtyMessage 1),
         Log [LStr ''Main IPC incoming: '', LMsg bash_request], Spawn ''bash'' [] 80 24,
         Send window1 (CreatedPtyMessage 2),
         Log [LStr ''Main IPC incoming: '', LMsg (PtyClose 1)], TermDestroy 10,
         Log [LStr ''pty process exited.''], Send window1 (PtyClose 2), TermDestroy 11,
         Log [LStr ''Main IPC incoming: '', LMsg bash_request], Spawn ''bash'' [] 80 24,
         Send window2 (CreatedPtyMessage 3)]\<rparr>"
  by (simp add: busy_run_def run_def handleAsyncIpc_def dispatch_def handlePtyCreate_def
      createPty_Inr js_increment_small handlePtyClose_def emit_exit_def onExit_def
      cleanUpPtyWindow_def bash_request_def start_state_def window1_def window2_def
      log_def send_def emit_def map_get_def map_set_def map_delete_def map_keys_def)

theorem session_ids_strictly_increasing_witness:
  "ptyCounter (run bare_platform busy_run start_state) < 2 ^ 53
   \<and> created_ids (new_effects start_state (run bare_platform busy_run start_state)) = [1, 2, 3]
   \<and> sorted_wrt (<) (created_ids (new_effects start_state (run bare_platform busy_run start_state)))
   \<and> distinct (created_ids (new_effects start_state (run bare_platform busy_run start_state)))
   \<and> map_keys (ptyMap (run bare_platform busy_run start_state)) = [3]
   \<and> fst (createPty window1 ''bash'' [] 80 24 (Inr 13) (run bare_platform busy_run start_state)) =
       Inr 4"
proof -
  have below: "ptyCounter (run bare_platform busy_run start_state) < 2 ^ 53"
    by (simp add: busy_run_eq)
  have ids: "created_ids (new_effects start_state (run bare_platform busy_run start_state)) =
      [1, 2, 3]"
    by (simp add: busy_run_eq new_effects_def) (simp add: start_state_def)
  have keys: "map_keys (ptyMap (run bare_platform busy_run start_state)) = [3]"
    by (simp add: busy_run_eq map_keys_def)
  have counter: "ptyCounter (run bare_platform busy_run start_state) = 3"
    by (simp add: busy_run_eq)
  note T = session_ids_strictly_increasing [OF below, of window1 "''bash''" "[]" 80 24 13]
  from T [THEN conjunct1] T [THEN conjunct2, THEN conjunct1]
    T [THEN conjunct2, THEN conjunct2, THEN conjunct1] below ids keys
  show ?thesis
    by (simp add: counter)
qed

subsection \<open>The exit of a pty process\<close>

lemma fold_guarded: "fold (\<lambda>l s'. if P l then f l s' else s') ls s = fold f (filter P ls) s"
  by (induction ls arbitrary: s) auto

text \<open>
  Claim C3. \<^verbatim>\<open>createPty\<close> with a spawned pty object returns the next id, registers the
  session under it with the window of the sender, and subscribes the closures that
  capture this pty object, this id and this sender. Run in any later state, the exit
  closure writes one console line, sends one \<^verbatim>\<open>PTY_CLOSE\<close> message with the id to that
  sender, destroys the pty object once and deletes the entry of the id, which is absent
  afterwards. When this is the only closure subscribed on the pty object, an exit event
  of the object does exactly that.
\<close>

theorem exit_handler_closes_session:
  "createPty sender file args cols rows (Inr trm) s = (r, s1) \<Longrightarrow>
     r = Inr (js_increment (ptyCounter s))
   \<and> map_get (ptyMap s1) (js_increment (ptyCounter s)) = Some \<lparr>windowId = wc_windowId sender, ptyTerm = trm\<rparr>
   \<and> listeners s1 = listeners s @ [Listener trm (js_increment (ptyCounter s)) sender]
   \<and> (\<forall>s2. onExit (Listener trm (js_increment (ptyCounter s)) sender) s2 =
          s2\<lparr>ptyMap := map_delete (ptyMap s2) (js_increment (ptyCounter s)),
             effects := effects s2 @
               [Log [LStr ''pty process exited.''],
                Send sender (PtyClose (js_increment (ptyCounter s))),
                TermDestroy trm]\<rparr>
        \<and> map_get (ptyMap (onExit (Listener trm (js_increment (ptyCounter s)) sender) s2))
            (js_increment (ptyCounter s)) = None
        \<and> (filter (\<lambda>l. l_term l = trm) (listeners s2) = [Listener trm (js_increment (ptyCounter s)) sender]
            \<longrightarrow> emit_exit trm s2 = onExit (Listener trm (js_increment (ptyCounter s)) sender) s2))"
proof -
  assume "createPty sender file args cols rows (Inr trm) s = (r, s1)"
  then have r: "r = Inr (js_increment (ptyCounter s))"
    and s1: "s1 = s\<lparr>ptyCounter := js_increment (ptyCounter s),
       ptyMap := map_set (ptyMap s) (js_increment (ptyCounter s))
          \<lparr>windowId = wc_windowId sender, ptyTerm = trm\<rparr>,
       listeners := listeners s @ [Listener trm (js_increment (ptyCounter s)) sender],
       effects := effects s @ [Spawn file args cols rows]\<rparr>"
    by (simp_all add: createPty_Inr)
  let ?l = "Listener trm (js_increment (ptyCounter s)) sender"
  have a: "onExit ?l s2 =
          s2\<lparr>ptyMap := map_delete (ptyMap s2) (js_increment (ptyCounter s)),
             effects := effects s2 @
               [Log [LStr ''pty process exited.''],
                Send sender (PtyClose (js_increment (ptyCounter s))),
                TermDestroy trm]\<rparr>" for s2
    by (simp add: onExit_def log_def send_def emit_def)
  have b: "map_get (ptyMap (onExit ?l s2)) (js_increment (ptyCounter s)) = None" for s2
    unfolding a by (simp add: map_get_delete_same)
  have c: "filter (\<lambda>l. l_term l = trm) (listeners s2) = [?l] \<longrightarrow> emit_exit trm s2 = onExit ?l s2"
    for s2
    by (simp add: emit_exit_def fold_guarded)
  from r s1 a b c show ?thesis
    by (simp add: map_get_set_same)
qed

lemma one_session_eq:
  "createPty window1 ''bash'' [] 80 24 (Inr 10) start_state = (Inr 1, one_session)"
  "one_session = start_state\<lparr>ptyCounter := 1, ptyMap := [(1, \<lparr>windowId = 1, ptyTerm = 10\<rparr>)],
     listeners := [Listener 10 1 window1], effects := [Spawn ''bash'' [] 80 24]\<rparr>"
  by (simp_all add: one_session_def createPty_Inr js_increment_small start_state_def window1_def
      map_set_def)

theorem exit_handler_closes_session_witness:
  "createPty window1 ''bash'' [] 80 24 (Inr 10) start_state = (Inr 1, one_session)
   \<and> map_get (ptyMap one_session) 1 = Some \<lparr>windowId = 1, ptyTerm = 10\<rparr>
   \<and> listeners one_session = [Listener 10 1 window1]
   \<and> emit_exit 10 one_session =
       one_session\<lparr>ptyMap := [],
         effects := [Spawn ''bash'' [] 80 24, Log [LStr ''pty process exited.''],
           Send window1 (PtyClose 1), TermDestroy 10]\<rparr>"
proof -
  note T = exit_handler_closes_session [OF one_session_eq(1)]
  have only: "filter (\<lambda>l. l_term l = 10) (listeners one_session) = [Listener 10 1 window1]"
    by (simp add: one_session_eq(2) start_state_def)
  from T have "emit_exit 10 one_session =
      one_session\<lparr>ptyMap := map_delete (ptyMap one_session) 1,
         effects := effects one_session @
           [Log [LStr ''pty process exited.''], Send window1 (PtyClose 1), TermDestroy 10]\<rparr>"
    using only by (simp add: start_state_def)
  moreover have "map_delete (ptyMap one_session) 1 = []"
    and "effects one_session = [Spawn ''bash'' [] 80 24]"
    and "map_get (ptyMap one_session) 1 = Some \<lparr>windowId = 1, ptyTerm = 10\<rparr>"
    and "listeners one_session = [Listener 10 1 window1]"
    by (simp_all add: one_session_eq(2) start_state_def map_delete_def map_get_def)
  ultimately show ?thesis
    using one_session_eq(1) by simp
qed

subsection \<open>Events of a session that is no longer registered\<close>

lemma toString10_1: "toString10 1 = ''1''" "toString10 (Suc 0) = ''1''"
  by code_simp+

lemma substituteBadChars_hi: "substituteBadChars ''hi'' = ''hi''"
  by code_simp

lemma closed_session_eq:
  "closed_session = start_state\<lparr>ptyCounter := 1, listeners := [Listener 10 1 window1],
     effects := [Log [LStr ''Main IPC incoming: '', LMsg bash_request], Spawn ''bash'' [] 80 24,
       Send window1 (CreatedPtyMessage 1),
       Log [LStr ''Main IPC incoming: '', LMsg (PtyClose 1)], TermDestroy 10]\<rparr>"
  by (simp add: closed_session_def run_def handleAsyncIpc_def dispatch_def handlePtyCreate_def
      createPty_Inr js_increment_small handlePtyClose_def bash_request_def start_state_def log_def send_def emit_def
      map_get_def map_set_def map_delete_def)

text \<open>
  Against claim C4 as stated. Window 1 creates a session (id 1, pty object 10) and closes
  it, so id 1 is absent from the map. Data of pty object 10 arriving then is not dropped:
  the closure sends a \<^verbatim>\<open>PTY_OUTPUT\<close> message with id 1. An exit arriving then sends a
  \<^verbatim>\<open>PTY_CLOSE\<close> message with id 1 and destroys the pty object a second time.
\<close>

theorem late_event_counterexample:
  "map_get (ptyMap closed_session) 1 = None
   \<and> new_effects closed_session (snd (step bare_platform (PtyDataEvent 10 ''hi'') closed_session)) =
       [Log [LStr ''pty process got data for ptyID=1''], Log [LStr ''hi''],
        Send window1 (PtyOutput 1 ''hi'')]
   \<and> new_effects closed_session (snd (step bare_platform (PtyExitEvent 10) closed_session)) =
       [Log [LStr ''pty process exited.''], Send window1 (PtyClose 1), TermDestroy 10]"
  by (simp add: closed_session_eq start_state_def map_get_def new_effects_def emit_data_def
      emit_exit_def onData_def onExit_def logData_def log_def send_def emit_def
      substituteBadChars_hi toString10_1 map_delete_def)

text \<open>
  Claim C4, amended. The closures subscribed on a pty object do not consult the map of
  sessions. For a session id that is absent from the map, the data closure still writes
  its two console lines and sends one \<^verbatim>\<open>PTY_OUTPUT\<close> message with that id to the sender
  that created the session, and the exit closure still writes its console line, sends one
  \<^verbatim>\<open>PTY_CLOSE\<close> message with that id and calls \<^verbatim>\<open>destroy\<close> on the pty object. Neither
  raises an exception, and neither changes the map of sessions, the counter or the
  listeners.
\<close>

theorem late_event_after_removal:
  "map_get (ptyMap s) (l_ptyId l) = None \<Longrightarrow>
     onData l d s = s\<lparr>effects := effects s @
        [Log [LStr (''pty process got data for ptyID='' @ toString10 (l_ptyId l))],
         Log [LStr (substituteBadChars d)],
         Send (l_sender l) (PtyOutput (l_ptyId l) d)]\<rparr>
   \<and> onExit l s = s\<lparr>effects := effects s @
        [Log [LStr ''pty process exited.''],
         Send (l_sender l) (PtyClose (l_ptyId l)),
         TermDestroy (l_term l)]\<rparr>"
  by (simp add: onData_def onExit_def logData_def log_def send_def emit_def map_delete_absent)

theorem late_event_after_removal_witness:
  "map_get (ptyMap closed_session) (l_ptyId (Listener 10 1 window1)) = None
   \<and> effects (onData (Listener 10 1 window1) ''hi'' closed_session) =
      effects closed_session @
        [Log [LStr ''pty process got data for ptyID=1''], Log [LStr ''hi''],
         Send window1 (PtyOutput 1 ''hi'')]
   \<and> ptyMap (onExit (Listener 10 1 window1) closed_session) = []"
proof -
  have absent: "map_get (ptyMap closed_session) (l_ptyId (Listener 10 1 window1)) = None"
    by (simp add: closed_session_eq start_state_def map_get_def)
  from late_event_after_removal [OF absent, of "''hi''"] absent show ?thesis
    by (simp add: closed_session_eq start_state_def substituteBadChars_hi toString10_1)
qed

subsection \<open>Scanning the themes\<close>

lemma validateThemeInfo_cases:
  "validateThemeInfo themeinfo = Inr True \<longleftrightarrow>
    (\<exists>members n. themeinfo = JObject members \<and> map_of members ''name'' = Some (JString n) \<and> n \<noteq> [])"
  by (auto simp: validateThemeInfo_def name_of_def isString_def split: json.splits option.splits)

lemma scanThemes_try_map:
  "(case scanThemes_try p (path_join p [themesdir, item, THEME_CONFIG]) item thememap of
      Inl e \<Rightarrow> thememap | Inr thememap' \<Rightarrow> thememap') =
   (case valid_theme p themesdir item of
      None \<Rightarrow> thememap | Some themeinfo \<Rightarrow> map_set thememap item themeinfo)"
  by (auto simp: scanThemes_try_def valid_theme_def validateThemeInfo_def name_of_def isString_def
      split: sum.splits json.splits option.splits)

lemma scanThemes_forEach_lookup:
  "map_of (fst (scanThemes_forEach p themesdir contents (thememap, out))) item =
    (if item \<in> set contents \<and> valid_theme p themesdir item \<noteq> None
     then valid_theme p themesdir item else map_of thememap item)"
proof (induction contents arbitrary: thememap out)
  case Nil
  show ?case by simp
next
  case (Cons c contents)
  let ?path = "path_join p [themesdir, c, THEME_CONFIG]"
  let ?next = "case valid_theme p themesdir c of
      None \<Rightarrow> thememap | Some themeinfo \<Rightarrow> map_set thememap c themeinfo"
  have "\<exists>out'. scanThemes_forEach p themesdir (c # contents) (thememap, out) =
      scanThemes_forEach p themesdir contents (?next, out')"
    using scanThemes_try_map [where p = p and themesdir = themesdir and item = c and thememap = thememap]
    by (cases "scanThemes_try p ?path c thememap") (auto simp: Let_def)
  then obtain out' where "scanThemes_forEach p themesdir (c # contents) (thememap, out) =
      scanThemes_forEach p themesdir contents (?next, out')" ..
  then show ?case
    by (auto simp: Cons.IH map_set_def update_conv' split: option.splits)
qed

lemma scanThemes_existing_directory:
  assumes "existsSync p themesdir" and "readdirSync p themesdir = Inr contents"
  shows "\<exists>thememap out. scanThemes p themesdir = (Inr (Some thememap), out)
    \<and> (\<forall>item. map_get thememap item =
          (if item \<in> set contents then valid_theme p themesdir item else None))"
proof -
  obtain thememap out where r: "scanThemes_forEach p themesdir contents ([], []) = (thememap, out)"
    by (cases "scanThemes_forEach p themesdir contents ([], [])")
  with assms have "scanThemes p themesdir = (Inr (Some thememap), out)"
    by (simp add: scanThemes_def)
  moreover have "map_get thememap item =
      (if item \<in> set contents then valid_theme p themesdir item else None)" for item
    using scanThemes_forEach_lookup [of p themesdir contents "[]" "[]" item] r
    by (auto simp: map_get_def)
  ultimately show ?thesis by blast
qed

text \<open>
  Claim C9 at a platform without a themes directory. \<^verbatim>\<open>scanThemes\<close> reaches its end
  without a \<^verbatim>\<open>return\<close>: the result is \<^verbatim>\<open>undefined\<close>, not a collection, and \<^verbatim>\<open>main\<close>
  stops with a TypeError on \<^verbatim>\<open>themes.get\<close>. (For a directory that exists and can be
  listed, \<open>scanThemes_existing_directory\<close> above shows the claimed result.)
\<close>

theorem scanThemes_missing_directory:
  "existsSync bare_platform (path_join bare_platform [dirname bare_platform, THEMES_DIRECTORY]) = False
   \<and> scanThemes bare_platform (path_join bare_platform [dirname bare_platform, THEMES_DIRECTORY]) =
       (Inr None, [])
   \<and> main bare_platform (Some ''default'') (Some True) = Inl TypeError"
  by (simp add: scanThemes_def main_def bare_platform_def)

subsection \<open>The tip viewer\<close>

lemma smod_nonneg: "0 \<le> a \<Longrightarrow> 0 < b \<Longrightarrow> (a::int) smod b = a mod b"
  by (simp add: smod_int_alt_def sgn_if)

lemma next_then_previous:
  fixes i n :: int
  assumes "0 \<le> i" "i < n"
  shows "((i + 1) mod n + n - 1) mod n = i"
proof (cases "i + 1 = n")
  case True
  then have "(i + 1) mod n = 0" by simp
  moreover from True assms have "(n - 1) mod n = i"
    by (intro int_mod_pos_eq [where q = 0]) auto
  ultimately show ?thesis by simp
next
  case False
  with assms have "(i + 1) mod n = i + 1"
    by (intro mod_pos_pos_trivial) auto
  moreover from assms have "(i + 1 + n - 1) mod n = i"
    by (intro int_mod_pos_eq [where q = 1]) auto
  ultimately show ?thesis by simp
qed

lemma previous_then_next:
  fixes i n :: int
  assumes "0 \<le> i" "i < n"
  shows "((i + n - 1) mod n + 1) mod n = i"
proof (cases "i = 0")
  case True
  with assms have "(i + n - 1) mod n = n - 1"
    by (intro int_mod_pos_eq [where q = 0]) auto
  moreover from True assms have "(n - 1 + 1) mod n = i"
    by simp
  ultimately show ?thesis by simp
next
  case False
  with assms have "(i + n - 1) mod n = i - 1"
    by (intro int_mod_pos_eq [where q = 1]) auto
  moreover from assms have "(i - 1 + 1) mod n = i"
    by simp
  ultimately show ?thesis by simp
qed

lemma tipIndex_next:
  assumes "0 < length tipData" and "tipIndex v = Some i" and "0 \<le> i"
  shows "tipIndex (nextButton_click tipData v) = Some ((i + 1) mod int (length tipData))"
proof -
  from assms(1) have "0 < int (length tipData)"
    by simp
  with assms(3) have "(i + 1) smod int (length tipData) = (i + 1) mod int (length tipData)"
    by (intro smod_nonneg) linarith+
  with assms show ?thesis
    by (simp add: nextButton_click_def setTipHTML_def js_rem_def js_add_def getTipCount_def)
qed

lemma tipIndex_previous:
  assumes "0 < length tipData" and "tipIndex v = Some i" and "0 \<le> i"
  shows "tipIndex (previousButton_click tipData v) =
     Some ((i + int (length tipData) - 1) mod int (length tipData))"
proof -
  from assms(1) have "0 < int (length tipData)"
    by simp
  with assms(3) have "(i + int (length tipData) - 1) smod int (length tipData) =
      (i + int (length tipData) - 1) mod int (length tipData)"
    by (intro smod_nonneg) linarith+
  with assms show ?thesis
    by (simp add: previousButton_click_def setTipHTML_def js_rem_def js_add_def js_sub_def
        getTipCount_def)
qed

text \<open>
  Claim C10. With \<open>n > 0\<close> tips and the index at \<open>i\<close>, \<open>0 \<le> i < n\<close>: a click on the
  next button sets the index to \<open>(i + 1) mod n\<close>, a click on the previous button to
  \<open>(i + n - 1) mod n\<close>, both within \<open>0 \<le> _ < n\<close>; next then previous, and previous
  then next, bring the index back to \<open>i\<close>.
\<close>

theorem tip_index_next_previous_inverse:
  assumes "0 < length tipData" and "tipIndex v = Some i" and "0 \<le> i" and "i < int (length tipData)"
  shows "tipIndex (previousButton_click tipData (nextButton_click tipData v)) = Some i
    \<and> tipIndex (nextButton_click tipData (previousButton_click tipData v)) = Some i
    \<and> tipIndex (nextButton_click tipData v) = Some ((i + 1) mod int (length tipData))
    \<and> tipIndex (previousButton_click tipData v) =
        Some ((i + int (length tipData) - 1) mod int (length tipData))
    \<and> 0 \<le> (i + 1) mod int (length tipData)
    \<and> (i + 1) mod int (length tipData) < int (length tipData)
    \<and> 0 \<le> (i + int (length tipData) - 1) mod int (length tipData)
    \<and> (i + int (length tipData) - 1) mod int (length tipData) < int (length tipData)"
proof -
  let ?n = "int (length tipData)"
  from assms(1) have n: "0 < ?n" by simp
  have nx: "tipIndex (nextButton_click tipData v) = Some ((i + 1) mod ?n)"
    using assms by (simp add: tipIndex_next)
  have pv: "tipIndex (previousButton_click tipData v) = Some ((i + ?n - 1) mod ?n)"
    using assms by (simp add: tipIndex_previous)
  have r1: "0 \<le> (i + 1) mod ?n" and r2: "(i + 1) mod ?n < ?n"
    and r3: "0 \<le> (i + ?n - 1) mod ?n" and r4: "(i + ?n - 1) mod ?n < ?n"
    using n by simp_all
  have "tipIndex (previousButton_click tipData (nextButton_click tipData v)) =
      Some (((i + 1) mod ?n + ?n - 1) mod ?n)"
    by (rule tipIndex_previous [OF assms(1) nx r1])
  then have a: "tipIndex (previousButton_click tipData (nextButton_click tipData v)) = Some i"
    by (simp only: next_then_previous [OF assms(3,4)])
  have "tipIndex (nextButton_click tipData (previousButton_click tipData v)) =
      Some (((i + ?n - 1) mod ?n + 1) mod ?n)"
    by (rule tipIndex_next [OF assms(1) pv r3])
  then have b: "tipIndex (nextButton_click tipData (previousButton_click tipData v)) = Some i"
    by (simp only: previous_then_next [OF assms(3,4)])
  from a b nx pv r1 r2 r3 r4 show ?thesis
    by (intro conjI)
qed

theorem tip_index_next_previous_inverse_witness:
  "0 < length [''a'', ''b'', ''c'']
   \<and> tipIndex \<lparr>tipIndex = Some 2, tipHTML = None\<rparr> = Some 2 \<and> (0::int) \<le> 2
   \<and> 2 < int (length [''a'', ''b'', ''c''])
   \<and> tipIndex (nextButton_click [''a'', ''b'', ''c''] \<lparr>tipIndex = Some 2, tipHTML = None\<rparr>) = Some 0
   \<and> tipIndex (previousButton_click [''a'', ''b'', ''c'']
        (nextButton_click [''a'', ''b'', ''c''] \<lparr>tipIndex = Some 2, tipHTML = None\<rparr>)) = Some 2
   \<and> tipIndex (nextButton_click [''a'', ''b'', ''c'']
        (previousButton_click [''a'', ''b'', ''c''] \<lparr>tipIndex = Some 2, tipHTML = None\<rparr>)) = Some 2"
  using tip_index_next_previous_inverse [of "[''a'', ''b'', ''c'']"
      "\<lparr>tipIndex = Some 2, tipHTML = None\<rparr>" 2]
  by simp

end
